theory Spec2Isabelle
  imports Main
begin

section \<open>Python strings and integer formatting\<close>

text \<open>
  Python \<open>int\<close> is modelled as \<open>int\<close>, \<open>str\<close> as \<open>string\<close>. The wire protocol
  and every literal of the program are ASCII.
\<close>

definition digit_char :: "nat \<Rightarrow> char" where
  "digit_char d = ''0123456789'' ! (d mod 10)"

function digits :: "nat \<Rightarrow> string" where
  "digits n = (if n < 10 then [digit_char n] else digits (n div 10) @ [digit_char (n mod 10)])"
  by pat_completeness auto
termination
  by (relation "measure id") auto

declare digits.simps [simp del]

text \<open>
  The format specification \<open>0Wd\<close> of an f-string (\<open>f"{n:02d}"\<close>, \<open>f"{n:03d}"\<close>):
  the sign of a negative number, then the decimal digits, zero-filled after the sign up
  to a minimum total width \<open>W\<close>. A number that needs more characters is not truncated.
\<close>

definition format_d :: "nat \<Rightarrow> int \<Rightarrow> string" where
  "format_d w n =
     (let sgn = (if n < 0 then ''-'' else '''');
          ds = digits (nat \<bar>n\<bar>)
      in sgn @ replicate (w - length sgn - length ds) CHR ''0'' @ ds)"

text \<open>\<open>resp.startswith(p)\<close> and \<open>p in resp\<close> on strings.\<close>

fun startswith :: "string \<Rightarrow> string \<Rightarrow> bool" where
  "startswith s [] = True"
| "startswith [] (p # ps) = False"
| "startswith (c # s) (p # ps) = (c = p \<and> startswith s ps)"

fun contains :: "string \<Rightarrow> string \<Rightarrow> bool" where
  "contains [] p = (p = [])"
| "contains (c # s) p = (startswith (c # s) p \<or> contains s p)"

text \<open>
  \<open>str.strip()\<close> removes leading and trailing whitespace. Among the code points below
  256 the whitespace characters of Python are TAB, LF, VT, FF, CR, the separators 0x1C to
  0x1F, space, NEL (0x85) and the no-break space (0xA0).
\<close>

definition whitespace :: "char list" where
  "whitespace = [CHR 0x09, CHR 0x0A, CHR 0x0B, CHR 0x0C, CHR 0x0D,
                 CHR 0x1C, CHR 0x1D, CHR 0x1E, CHR 0x1F, CHR 0x20, CHR 0x85, CHR 0xA0]"

definition is_space :: "char \<Rightarrow> bool" where
  "is_space c = (c \<in> set whitespace)"

definition py_strip :: "string \<Rightarrow> string" where
  "py_strip s = rev (dropWhile is_space (rev (dropWhile is_space s)))"

section \<open>utils.py\<close>

text \<open>
  \<open>format_command(pp, aaa)\<close> returns \<open>f"{pp:02d}{aaa:03d}"\<close>. There is no range check
  and no raising path for integer arguments.
\<close>

definition format_command :: "int \<Rightarrow> int \<Rightarrow> string" where
  "format_command pp aaa = format_d 2 pp @ format_d 3 aaa"

definition is_digit :: "char \<Rightarrow> bool" where
  "is_digit c = (c \<in> set ''0123456789'')"



section \<open>config.py\<close>

definition MAX_RETRIES :: nat where "MAX_RETRIES = 3"
definition CMD_POLARIZER :: int where "CMD_POLARIZER = 10"
definition CMD_SAMPLE :: int where "CMD_SAMPLE = 11"
definition CMD_HOME :: int where "CMD_HOME = 96"
definition CMD_RESET :: int where "CMD_RESET = 98"
definition CMD_ESTOP :: int where "CMD_ESTOP = 99"

text \<open>The two values of \<open>last_state\<close>: \<open>STATE_LATCHED\<close> and \<open>STATE_ARMED\<close>.\<close>

datatype safety_state = LATCHED | ARMED

section \<open>pics\_controller.py\<close>

datatype exn =
    InterruptedError string
  | RuntimeError string
  | ConnectionError string
  | SerialException string
  | OtherError string

fun str_exn :: "exn \<Rightarrow> string" where
  "str_exn (InterruptedError m) = m"
| "str_exn (RuntimeError m) = m"
| "str_exn (ConnectionError m) = m"
| "str_exn (SerialException m) = m"
| "str_exn (OtherError m) = m"

text \<open>
  The serial line and the device behind it. The device is a script of what the port
  does next:
  \<^item> \<open>boot\<close>: one entry for each iteration of the wait loop of \<open>connect\<close> that fits in
    the window \<open>CONNECTION_WAIT_S\<close>: nothing waiting, a line waiting (the decoded text
    that \<open>readline\<close> returns), or an exception raised by the port. When the list is used
    up the window has elapsed.
  \<^item> \<open>rx\<close>: one entry for each attempt of a command transaction: the decoded text that
    \<open>readline\<close> returns after the write (the empty string when the read times out),
    an exception raised before the write reaches the wire (\<open>reset_input_buffer\<close>,
    \<open>write\<close>), or an exception raised after it (\<open>flush\<close>, \<open>readline\<close>). When the
    list is used up every further read times out.
  \<^item> \<open>tx\<close>: the lines written to the wire so far, oldest first.
\<close>

datatype poll = Silent | Incoming string | PollError string

datatype attempt = Reply string | WriteError string | ReadError string

record serial =
  is_open :: bool
  boot :: "poll list"
  rx :: "attempt list"
  tx :: "string list"

text \<open>
  \<open>PicsController\<close>. The field \<open>slept\<close> is not in the source: it lists the back-off
  sleeps of the transactions, each in units of the base delay of 0.2 s.
\<close>

record controller =
  ser :: "serial option"
  is_connected :: bool
  last_state :: safety_state
  port :: "string option"
  slept :: "nat list"

definition init_controller :: controller where
  "init_controller =
     \<lparr>ser = None, is_connected = False, last_state = LATCHED, port = None, slept = []\<rparr>"

definition next_attempt :: "serial \<Rightarrow> attempt \<times> serial" where
  "next_attempt s =
     (case rx s of
        [] \<Rightarrow> (Reply [], s)
      | a # rest \<Rightarrow> (a, s\<lparr>rx := rest\<rparr>))"

text \<open>
  The retry loop of \<open>_send_raw_command\<close>, from attempt number \<open>attempt\<close>. It returns
  the response, the port and the sleeps.
\<close>

function send_loop ::
  "string \<Rightarrow> nat \<Rightarrow> nat \<Rightarrow> serial \<Rightarrow> nat list \<Rightarrow> string \<times> serial \<times> nat list" where
  "send_loop cmd_str retry_count attempt s sl =
     (if attempt < retry_count then
        (let full_cmd = cmd_str @ [CHR 0x0A] in
         case next_attempt s of
           (WriteError m, s1) \<Rightarrow> (''ERR EXCEPTION '' @ m, s1, sl)
         | (ReadError m, s1) \<Rightarrow> (''ERR EXCEPTION '' @ m, s1\<lparr>tx := tx s1 @ [full_cmd]\<rparr>, sl)
         | (Reply line, s1) \<Rightarrow>
             (let s2 = s1\<lparr>tx := tx s1 @ [full_cmd]\<rparr>;
                  response = py_strip line
              in if response = [] then
                   send_loop cmd_str retry_count (attempt + 1) s2
                     (sl @ [2 ^ ((attempt + 1) - 1)])
                 else (response, s2, sl)))
      else (''ERR TIMEOUT'', s, sl))"
  by pat_completeness auto
termination
  by (relation "measure (\<lambda>(cmd_str, retry_count, attempt, s, sl). retry_count - attempt)") auto

declare send_loop.simps [simp del]

definition send_raw_command ::
  "controller \<Rightarrow> int \<Rightarrow> int \<Rightarrow> nat \<Rightarrow> string \<times> controller" where
  "send_raw_command c pp aaa retry_count =
     (let cmd_str = format_command pp aaa in
      case ser c of
        None \<Rightarrow> (''ERR NO_CONNECTION'', c)
      | Some s \<Rightarrow>
          if \<not> is_open s then (''ERR NO_CONNECTION'', c)
          else (case send_loop cmd_str retry_count 0 s (slept c) of
                  (resp, s', sl) \<Rightarrow> (resp, c\<lparr>ser := Some s', slept := sl\<rparr>)))"

definition send_command :: "controller \<Rightarrow> int \<Rightarrow> int \<Rightarrow> bool \<times> controller" where
  "send_command c pp aaa =
     (case send_raw_command c pp aaa MAX_RETRIES of
        (resp, c') \<Rightarrow> (startswith resp ''OK'', c'))"

definition emergency_stop :: "controller \<Rightarrow> bool \<times> controller" where
  "emergency_stop c =
     (case send_raw_command c CMD_ESTOP 0 MAX_RETRIES of
        (resp, c') \<Rightarrow>
          if contains resp ''OK ESTOP'' then (True, c'\<lparr>last_state := LATCHED\<rparr>)
          else (False, c'))"

definition reset :: "controller \<Rightarrow> bool \<times> controller" where
  "reset c =
     (case send_raw_command c CMD_RESET 0 MAX_RETRIES of
        (resp, c') \<Rightarrow>
          if contains resp ''OK RESET'' then (True, c'\<lparr>last_state := ARMED\<rparr>)
          else (False, c'))"

definition home :: "controller \<Rightarrow> bool \<times> controller" where
  "home c =
     (if last_state c = LATCHED then (False, c)
      else (case send_raw_command c CMD_HOME 0 MAX_RETRIES of
              (resp, c') \<Rightarrow> (contains resp ''OK'', c')))"

definition rotate_polarizer :: "controller \<Rightarrow> int \<Rightarrow> bool \<times> controller" where
  "rotate_polarizer c angle = send_command c CMD_POLARIZER angle"

definition rotate_sample :: "controller \<Rightarrow> int \<Rightarrow> bool \<times> controller" where
  "rotate_sample c angle = send_command c CMD_SAMPLE angle"

definition close_port :: "serial option \<Rightarrow> serial option" where
  "close_port so =
     (case so of
        None \<Rightarrow> None
      | Some s \<Rightarrow> if is_open s then Some (s\<lparr>is_open := False\<rparr>) else Some s)"

definition disconnect :: "controller \<Rightarrow> controller" where
  "disconnect c = c\<lparr>ser := close_port (ser c), is_connected := False\<rparr>"

text \<open>
  The wait loop of \<open>connect\<close>: it ends with \<open>boot_msg_seen\<close> when a waiting line strips
  to \<open>READY\<close>, skips every other line, and ends without it when the window has elapsed.
\<close>

fun wait_ready :: "poll list \<Rightarrow> (exn + bool) \<times> poll list" where
  "wait_ready [] = (Inr False, [])"
| "wait_ready (Silent # ps) = wait_ready ps"
| "wait_ready (Incoming line # ps) =
     (if py_strip line = ''READY'' then (Inr True, ps) else wait_ready ps)"
| "wait_ready (PollError m # ps) = (Inl (SerialException m), ps)"

text \<open>The handler \<open>except Exception as e\<close> of \<open>connect\<close>.\<close>

definition connect_failed :: "controller \<Rightarrow> exn \<Rightarrow> (exn + bool) \<times> controller" where
  "connect_failed c e = (Inl e, c\<lparr>is_connected := False, ser := close_port (ser c)\<rparr>)"

text \<open>
  \<open>connect(port)\<close>. The argument \<open>opened\<close> is what \<open>serial.Serial(port, baud, timeout)\<close>
  does: it raises, or it returns the port, which is then open.
\<close>

definition connect :: "controller \<Rightarrow> string \<Rightarrow> exn + serial \<Rightarrow> (exn + bool) \<times> controller" where
  "connect c prt opened =
     (let c1 = c\<lparr>port := Some prt\<rparr> in
      case opened of
        Inl e \<Rightarrow> connect_failed c1 e
      | Inr s0 \<Rightarrow>
          (case wait_ready (boot s0) of
             (Inl e, ps) \<Rightarrow>
               connect_failed (c1\<lparr>ser := Some (s0\<lparr>is_open := True, boot := ps\<rparr>)\<rparr>) e
           | (Inr boot_msg_seen, ps) \<Rightarrow>
               (let c2 = c1\<lparr>ser := Some (s0\<lparr>is_open := True, boot := ps\<rparr>)\<rparr> in
                if boot_msg_seen then
                  (Inr True, c2\<lparr>is_connected := True, last_state := LATCHED\<rparr>)
                else
                  (case send_raw_command c2 CMD_RESET 0 MAX_RETRIES of
                     (resp, c3) \<Rightarrow>
                       if contains resp ''OK RESET'' then
                         (Inr True, c3\<lparr>is_connected := True, last_state := ARMED\<rparr>)
                       else
                         connect_failed c3
                           (ConnectionError
                              (''Failed to connect. Response to RESET: '' @ resp))))))"

definition get_state :: "controller \<Rightarrow> safety_state" where
  "get_state c = last_state c"


section \<open>sequence.py\<close>

text \<open>
  What a run does, in order, is a list of events: the messages given to \<open>self.log\<close>,
  the calls to the camera, to \<open>utils.ensure_dir\<close>, \<open>io.save_image\<close> and
  \<open>io.append_to_log\<close>, and the calls to the controller. A path is the list of the
  components given to \<open>os.path.join\<close>. A row of the log is the dictionary given to
  \<open>io.append_to_log\<close>, without its time stamp.
\<close>

type_synonym path = "string list"

record log_row =
  mode :: string
  exposure_us :: int
  polarizer_angle :: int
  sample_angle :: int
  filepath :: path
  arduino_response :: string

datatype event =
    Log string
  | EnsureDir path
  | StopLive
  | ResumeLive
  | SetExposure int
  | Capture
  | SaveImage path
  | AppendLog path log_row
  | Call_reset
  | Call_rotate_polarizer int
  | Call_rotate_sample int
  | Call_home
  | Call_emergency_stop

text \<open>The camera object: which of the optional methods it has (\<open>hasattr\<close>).\<close>

record camera =
  has_stop_live :: bool
  has_resume_live :: bool

text \<open>
  \<open>PicsSequence\<close> and what surrounds it during one run:
  \<^item> \<open>abort_flag\<close> is \<open>self._abort_flag\<close>. Another thread sets it by \<open>abort()\<close>;
    \<open>abort_after = Some k\<close> says that this call arrives after \<open>k\<close> more reads of the
    flag, \<open>None\<close> that it does not arrive.
  \<^item> \<open>settle_slices\<close> is the number of 50 ms slices of one settling wait.
  \<^item> \<open>faults\<close> is the script of the fallible collaborators (\<open>ensure_dir\<close>,
    \<open>set_exposure\<close>, \<open>capture\<close>, \<open>save_image\<close>, \<open>append_to_log\<close>): one entry
    for each call, \<open>Some e\<close> when the call raises \<open>e\<close>. When the list is used up every
    further call returns. \<open>stop_live\<close> and \<open>resume_live\<close> only set a flag in both camera
    classes of the repository and always return.
\<close>

record world =
  ctrl :: controller
  cam :: camera
  abort_flag :: bool
  abort_after :: "nat option"
  settle_slices :: nat
  faults :: "exn option list"

text \<open>
  A piece of the run is a function from the world to its outcome (\<open>Inl e\<close> when it
  raises \<open>e\<close>), the events it made and the new world.
\<close>

type_synonym 'a step = "world \<Rightarrow> (exn + 'a) \<times> event list \<times> world"

definition seq_ret :: "'a \<Rightarrow> 'a step" where
  "seq_ret x w = (Inr x, [], w)"

definition seq_raise :: "exn \<Rightarrow> 'a step" where
  "seq_raise e w = (Inl e, [], w)"

definition seq_bind :: "'a step \<Rightarrow> ('a \<Rightarrow> 'b step) \<Rightarrow> 'b step" where
  "seq_bind m f w =
     (case m w of
        (Inl e, evs, w1) \<Rightarrow> (Inl e, evs, w1)
      | (Inr x, evs, w1) \<Rightarrow> (case f x w1 of (r, evs2, w2) \<Rightarrow> (r, evs @ evs2, w2)))"

text \<open>Statements in sequence: the first one that raises ends the block.\<close>

fun steps :: "unit step list \<Rightarrow> unit step" where
  "steps [] w = (Inr (), [], w)"
| "steps (m # ms) w =
     (case m w of
        (Inl e, evs, w1) \<Rightarrow> (Inl e, evs, w1)
      | (Inr u, evs, w1) \<Rightarrow> (case steps ms w1 of (r, evs2, w2) \<Rightarrow> (r, evs @ evs2, w2)))"

definition if_enabled :: "bool \<Rightarrow> unit step \<Rightarrow> unit step" where
  "if_enabled b m = (if b then m else seq_ret ())"

definition log_msg :: "string \<Rightarrow> unit step" where
  "log_msg msg w = (Inr (), [Log msg], w)"

definition collab :: "event \<Rightarrow> unit step" where
  "collab ev w =
     (case faults w of
        [] \<Rightarrow> (Inr (), [ev], w)
      | None # rest \<Rightarrow> (Inr (), [ev], w\<lparr>faults := rest\<rparr>)
      | Some e # rest \<Rightarrow> (Inl e, [ev], w\<lparr>faults := rest\<rparr>))"

definition ctrl_call :: "event \<Rightarrow> (controller \<Rightarrow> bool \<times> controller) \<Rightarrow> bool step" where
  "ctrl_call ev operation w =
     (case operation (ctrl w) of (ok, c') \<Rightarrow> (Inr ok, [ev], w\<lparr>ctrl := c'\<rparr>))"

text \<open>\<open>abort()\<close>, called from the other thread.\<close>

definition abort :: "world \<Rightarrow> event list \<times> world" where
  "abort w = ([Log ''Abort requested!''], w\<lparr>abort_flag := True\<rparr>)"

definition other_thread :: "world \<Rightarrow> event list \<times> world" where
  "other_thread w =
     (case abort_after w of
        None \<Rightarrow> ([], w)
      | Some 0 \<Rightarrow> abort (w\<lparr>abort_after := None\<rparr>)
      | Some (Suc k) \<Rightarrow> ([], w\<lparr>abort_after := Some k\<rparr>))"

text \<open>\<open>_check_abort\<close>, with whatever the other thread did since the last read.\<close>

definition check_abort :: "unit step" where
  "check_abort w =
     (case other_thread w of
        (evs, w1) \<Rightarrow>
          if abort_flag w1 then (Inl (InterruptedError ''Sequence aborted by user.''), evs, w1)
          else (Inr (), evs, w1))"

definition wait_settling :: "unit step" where
  "wait_settling w = steps (replicate (settle_slices w) check_abort) w"

text \<open>\<open>str(n)\<close>, as in \<open>f"{angle}"\<close>.\<close>

definition str_int :: "int \<Rightarrow> string" where
  "str_int n = format_d 0 n"

definition require_connected :: "unit step" where
  "require_connected w =
     (if \<not> is_connected (ctrl w) then
        (Inl (RuntimeError ''Controller not connected.''), [], w)
      else (Inr (), [], w))"

definition stop_live_if_present :: "unit step" where
  "stop_live_if_present w = (if has_stop_live (cam w) then (Inr (), [StopLive], w) else (Inr (), [], w))"

definition log_path :: "string \<Rightarrow> string \<Rightarrow> path" where
  "log_path save_dir sample_id = [save_dir, sample_id, sample_id @ ''_log.csv'']"

text \<open>One pass of the loop body of Phase 1.\<close>

definition crosspol_step :: "string \<Rightarrow> string \<Rightarrow> int \<Rightarrow> int \<Rightarrow> unit step" where
  "crosspol_step save_dir sample_id crosspol_exposure_us angle =
     (let crosspol_dir = [save_dir, sample_id, ''crosspol''];
          fname = sample_id @ ''_crosspol_'' @ format_d 3 angle @ ''.tif'';
          fpath = crosspol_dir @ [fname]
      in steps
        [check_abort,
         log_msg (''Crosspol: Sample '' @ str_int angle @ '' deg''),
         seq_bind (ctrl_call (Call_rotate_sample angle) (\<lambda>c. rotate_sample c angle))
           (\<lambda>ok. if \<not> ok then
                    steps
                      [log_msg (''Error moving sample to '' @ str_int angle @ ''. Retrying once...''),
                       seq_bind (ctrl_call (Call_rotate_sample angle) (\<lambda>c. rotate_sample c angle))
                         (\<lambda>ok2. if \<not> ok2 then
                                    seq_raise (RuntimeError (''Failed moving sample to '' @ str_int angle))
                                  else seq_ret ())]
                  else seq_ret ()),
         wait_settling,
         collab Capture,
         collab (SaveImage fpath),
         collab (AppendLog (log_path save_dir sample_id)
                   \<lparr>mode = ''crosspol'', exposure_us = crosspol_exposure_us,
                    polarizer_angle = 90, sample_angle = angle, filepath = fpath,
                    arduino_response = ''OK''\<rparr>)])"

text \<open>One pass of the loop body of Phase 2.\<close>

definition normal_step :: "string \<Rightarrow> string \<Rightarrow> int \<Rightarrow> int \<Rightarrow> unit step" where
  "normal_step save_dir sample_id normal_exposure_us angle =
     (let normal_dir = [save_dir, sample_id, ''normal''];
          fname = sample_id @ ''_normal_'' @ format_d 3 angle @ ''.tif'';
          fpath = normal_dir @ [fname]
      in steps
        [check_abort,
         log_msg (''Normal: Sample '' @ str_int angle @ '' deg''),
         seq_bind (ctrl_call (Call_rotate_sample angle) (\<lambda>c. rotate_sample c angle))
           (\<lambda>ok. if \<not> ok then
                    seq_raise (RuntimeError (''Failed moving sample to '' @ str_int angle))
                  else seq_ret ()),
         wait_settling,
         collab Capture,
         collab (SaveImage fpath),
         collab (AppendLog (log_path save_dir sample_id)
                   \<lparr>mode = ''normal'', exposure_us = normal_exposure_us,
                    polarizer_angle = 0, sample_angle = angle, filepath = fpath,
                    arduino_response = ''OK''\<rparr>)])"

definition crosspol_phase :: "string \<Rightarrow> string \<Rightarrow> int \<Rightarrow> int list \<Rightarrow> unit step" where
  "crosspol_phase save_dir sample_id crosspol_exposure_us sample_angles =
     steps
       ([log_msg ''Phase 1: Crosspol'',
         collab (SetExposure crosspol_exposure_us),
         log_msg ''Moving Polarizer to 90...'',
         seq_bind (ctrl_call (Call_rotate_polarizer 90) (\<lambda>c. rotate_polarizer c 90))
           (\<lambda>ok. if \<not> ok then seq_raise (RuntimeError ''Failed to move Polarizer to 90.'')
                  else seq_ret ()),
         wait_settling]
        @ map (crosspol_step save_dir sample_id crosspol_exposure_us) sample_angles)"

definition normal_phase :: "string \<Rightarrow> string \<Rightarrow> int \<Rightarrow> int list \<Rightarrow> unit step" where
  "normal_phase save_dir sample_id normal_exposure_us sample_angles =
     steps
       ([log_msg ''Phase 2: Normal'',
         collab (SetExposure normal_exposure_us),
         log_msg ''Moving Polarizer to 0...'',
         seq_bind (ctrl_call (Call_rotate_polarizer 0) (\<lambda>c. rotate_polarizer c 0))
           (\<lambda>ok. if \<not> ok then seq_raise (RuntimeError ''Failed to move Polarizer to 0.'')
                  else seq_ret ()),
         wait_settling]
        @ map (normal_step save_dir sample_id normal_exposure_us) sample_angles)"

text \<open>The guarded block of \<open>run_sequence\<close>.\<close>

definition body ::
  "string \<Rightarrow> string \<Rightarrow> int \<Rightarrow> int \<Rightarrow> int list \<Rightarrow> bool \<Rightarrow> bool \<Rightarrow> unit step" where
  "body save_dir sample_id crosspol_exposure_us normal_exposure_us sample_angles
        do_crosspol do_normal =
     steps
       [log_msg ''Starting Sequence...'',
        require_connected,
        if_enabled do_crosspol (collab (EnsureDir [save_dir, sample_id, ''crosspol''])),
        if_enabled do_normal (collab (EnsureDir [save_dir, sample_id, ''normal''])),
        stop_live_if_present,
        log_msg ''Arming system (RESET)...'',
        seq_bind (ctrl_call Call_reset reset)
          (\<lambda>ok. if \<not> ok then
                   seq_raise (RuntimeError ''Failed to ARM system (RESET command failed).'')
                 else seq_ret ()),
        if_enabled do_crosspol (crosspol_phase save_dir sample_id crosspol_exposure_us sample_angles),
        if_enabled do_normal (normal_phase save_dir sample_id normal_exposure_us sample_angles),
        log_msg ''Sequence Complete. Homing...'',
        seq_bind (ctrl_call Call_home home) (\<lambda>ok. seq_ret ())]"

fun is_interrupted :: "exn \<Rightarrow> bool" where
  "is_interrupted (InterruptedError m) = True"
| "is_interrupted e = False"

text \<open>The cleanup block, then the outcome \<open>r\<close> that was pending.\<close>

definition finally_block :: "(exn + unit) \<Rightarrow> event list \<Rightarrow> world \<Rightarrow> (exn + unit) \<times> event list \<times> world" where
  "finally_block r evs w = (r, evs @ (if has_resume_live (cam w) then [ResumeLive] else []), w)"

text \<open>
  \<open>run_sequence\<close>. The handler of \<open>InterruptedError\<close> logs and falls through, so the
  call returns; the handler of any other exception logs, calls \<open>emergency_stop\<close> and
  raises the exception again.
\<close>

definition run_sequence ::
  "string \<Rightarrow> string \<Rightarrow> int \<Rightarrow> int \<Rightarrow> int list option \<Rightarrow> bool \<Rightarrow> bool \<Rightarrow> unit step" where
  "run_sequence save_dir sample_id crosspol_exposure_us normal_exposure_us sample_angles
        do_crosspol do_normal w0 =
     (let w = w0\<lparr>abort_flag := False\<rparr>;
          angles = (case sample_angles of None \<Rightarrow> [90, 60, 45, 30, 0] | Some xs \<Rightarrow> xs)
      in if \<not> (do_crosspol \<or> do_normal) then
           (Inl (RuntimeError ''No modes enabled for sequence.''), [], w)
         else
           (case body save_dir sample_id crosspol_exposure_us normal_exposure_us angles
                   do_crosspol do_normal w of
              (Inr u, evs, w1) \<Rightarrow> finally_block (Inr ()) evs w1
            | (Inl e, evs, w1) \<Rightarrow>
                if is_interrupted e then
                  finally_block (Inr ()) (evs @ [Log ''Sequence Aborted!'']) w1
                else
                  (case emergency_stop (ctrl w1) of
                     (ok, c') \<Rightarrow>
                       finally_block (Inl e)
                         (evs @ [Log (''Sequence Error: '' @ str_exn e),
                                 Log ''Emergency Stop Triggered due to Error.'',
                                 Call_emergency_stop])
                         (w1\<lparr>ctrl := c'\<rparr>))))"

text \<open>What the next \<open>n\<close> attempts on the line meet: the script, then time-outs.\<close>

definition reads :: "serial \<Rightarrow> nat \<Rightarrow> attempt list" where
  "reads s n = take n (rx s @ replicate n (Reply []))"

fun timed_out :: "attempt \<Rightarrow> bool" where
  "timed_out (Reply line) = (py_strip line = [])"
| "timed_out (WriteError m) = False"
| "timed_out (ReadError m) = False"

definition wire_line :: "int \<Rightarrow> int \<Rightarrow> string" where
  "wire_line pp aaa = format_command pp aaa @ [CHR 0x0A]"

definition backoff :: "nat \<Rightarrow> nat list" where
  "backoff n = map (\<lambda>attempt. 2 ^ (attempt - 1)) [1..<Suc n]"


definition line_closed :: "controller \<Rightarrow> bool" where
  "line_closed c = (case ser c of None \<Rightarrow> True | Some s \<Rightarrow> \<not> is_open s)"

text \<open>The lines on the wire of a controller (none when it has no port).\<close>

definition wire :: "controller \<Rightarrow> string list" where
  "wire c = (case ser c of None \<Rightarrow> [] | Some s \<Rightarrow> tx s)"

fun quiet :: "poll \<Rightarrow> bool" where
  "quiet Silent = True"
| "quiet (Incoming line) = (py_strip line \<noteq> ''READY'')"
| "quiet (PollError m) = False"


text \<open>A connected, armed controller on an open line whose device follows \<open>script\<close>.\<close>

definition c_test :: "attempt list \<Rightarrow> controller" where
  "c_test script =
     \<lparr>ser = Some \<lparr>is_open = True, boot = [], rx = script, tx = []\<rparr>,
      is_connected = True, last_state = ARMED, port = Some ''COM3'', slept = []\<rparr>"


text \<open>
  Devices for the handshake: one that boots and announces itself, one that is already
  running and answers the third RESET attempt (the script of the repository's test
  \<open>test_connect_handshake_timeout_reset\<close>), one that refuses the RESET, and one that
  never answers.
\<close>

definition dev_booting :: serial where
  "dev_booting =
     \<lparr>is_open = True, boot = [Silent, Incoming (''READY'' @ [CHR 0x0A])], rx = [], tx = []\<rparr>"

definition dev_running :: serial where
  "dev_running =
     \<lparr>is_open = True, boot = [Silent],
      rx = [Reply [], Reply [], Reply (''OK RESET'' @ [CHR 0x0A])], tx = []\<rparr>"

definition dev_refusing :: serial where
  "dev_refusing = \<lparr>is_open = True, boot = [Silent], rx = [Reply ''ERR BUSY''], tx = []\<rparr>"

definition dev_dead :: serial where
  "dev_dead = \<lparr>is_open = True, boot = [Silent], rx = [], tx = []\<rparr>"


text \<open>
  A sample run: a connected controller on an open line, a camera with both
  optional methods, settling waits of two slices. \<open>script\<close> is what the device does,
  \<open>ab\<close> when the abort arrives, \<open>fl\<close> what the collaborators do.
\<close>

definition w_test :: "attempt list \<Rightarrow> nat option \<Rightarrow> exn option list \<Rightarrow> world" where
  "w_test script ab fl =
     \<lparr>ctrl = c_test script, cam = \<lparr>has_stop_live = True, has_resume_live = True\<rparr>,
      abort_flag = False, abort_after = ab, settle_slices = 2, faults = fl\<rparr>"

text \<open>
  A device that acknowledges the RESET and the polarizer move, refuses the first sample
  move, and would acknowledge everything after that.
\<close>

definition dev_one_refusal :: "attempt list" where
  "dev_one_refusal =
     [Reply ''OK RESET'', Reply ''OK 10'', Reply ''ERR JAM'', Reply ''OK 11 045'',
      Reply ''OK'']"

text \<open>A device that acknowledges every command of a run over two angles.\<close>

definition dev_obedient :: "attempt list" where
  "dev_obedient =
     [Reply ''OK RESET'', Reply ''OK 10 090'', Reply ''OK 11 090'', Reply ''OK 11 000'',
      Reply ''OK 10 000'', Reply [], Reply ''OK 11 090'', Reply ''OK 11 000'',
      Reply ''OK HOME'']"

text \<open>Projections of the events of a run.\<close>

fun is_sample_move :: "event \<Rightarrow> bool" where
  "is_sample_move (Call_rotate_sample angle) = True"
| "is_sample_move ev = False"















section \<open>The command codec\<close>

lemma digit_char_is_digit: "is_digit (digit_char d)"
proof -
  have "d mod 10 < length ''0123456789''" by simp
  then have "''0123456789'' ! (d mod 10) \<in> set ''0123456789''"
    by (rule nth_mem)
  then show ?thesis
    by (simp only: is_digit_def digit_char_def)
qed

lemma digits_small: "n < 10 \<Longrightarrow> digits n = [digit_char n]"
  by (simp add: digits.simps)

lemma digits_two: "10 \<le> n \<Longrightarrow> n < 100 \<Longrightarrow> digits n = [digit_char (n div 10), digit_char (n mod 10)]"
  by (subst digits.simps) (simp add: digits_small)


lemma digits_three:
  "100 \<le> n \<Longrightarrow> n < 1000 \<Longrightarrow>
   digits n = [digit_char (n div 100), digit_char (n div 10 mod 10), digit_char (n mod 10)]"
proof -
  assume a: "100 \<le> n" "n < 1000"
  have "10 \<le> n div 10" "n div 10 < 100" using a by auto
  then have "digits (n div 10) = [digit_char (n div 10 div 10), digit_char (n div 10 mod 10)]"
    by (rule digits_two)
  moreover have "n div 10 div 10 = n div 100" by (simp add: div_mult2_eq)
  ultimately show ?thesis using a
    by (subst digits.simps) simp
qed

lemma digit_char_0: "digit_char 0 = CHR ''0''"
  by (simp add: digit_char_def)

lemma replicate_2: "replicate 2 x = [x, x]"
  by (simp add: numeral_2_eq_2)

lemma replicate_3: "replicate 3 x = [x, x, x]"
  by (simp add: numeral_3_eq_3)

lemma format_d_2:
  "0 \<le> n \<Longrightarrow> n \<le> 99 \<Longrightarrow>
   format_d 2 n = [digit_char (nat n div 10), digit_char (nat n mod 10)]"
proof -
  assume a: "0 \<le> n" "n \<le> 99"
  show ?thesis
  proof (cases "nat n < 10")
    case True
    then show ?thesis using a
      by (simp add: format_d_def digits_small digit_char_0)
  next
    case False
    then have "10 \<le> nat n" "nat n < 100" using a by auto
    then show ?thesis using a
      by (simp add: format_d_def digits_two)
  qed
qed

lemma format_d_3:
  "0 \<le> n \<Longrightarrow> n \<le> 999 \<Longrightarrow>
   format_d 3 n = [digit_char (nat n div 100), digit_char (nat n div 10 mod 10),
                   digit_char (nat n mod 10)]"
proof -
  assume a: "0 \<le> n" "n \<le> 999"
  consider "nat n < 10" | "10 \<le> nat n" "nat n < 100" | "100 \<le> nat n" "nat n < 1000"
    using a by linarith
  then show ?thesis
  proof cases
    case 1
    then show ?thesis using a
      by (simp add: format_d_def digits_small digit_char_0 replicate_2)
  next
    case 2
    then have "nat n div 100 = 0" by simp
    moreover have "nat n div 10 mod 10 = nat n div 10" using 2 by simp
    ultimately show ?thesis using a 2
      by (simp add: format_d_def digits_two digit_char_0)
  next
    case 3
    then show ?thesis using a
      by (simp add: format_d_def digits_three)
  qed
qed

text \<open>
  C9 (as amended). For every code in [0,99] and argument in [0,999] the token is exactly
  five ASCII digits: the tens and units digit of the code, then the hundreds, tens and
  units digit of the argument. Nothing is rejected: \<open>format_command\<close> has no failing path.
\<close>

theorem format_command_in_range:
  "0 \<le> code \<and> code \<le> 99 \<and> 0 \<le> arg \<and> arg \<le> 999 \<Longrightarrow>
   format_command code arg =
     [digit_char (nat code div 10), digit_char (nat code mod 10),
      digit_char (nat arg div 100), digit_char (nat arg div 10 mod 10),
      digit_char (nat arg mod 10)]
   \<and> length (format_command code arg) = 5
   \<and> list_all is_digit (format_command code arg)"
  by (simp add: format_command_def format_d_2 format_d_3 digit_char_is_digit)

theorem format_command_in_range_witness:
  "format_command 10 90 = ''10090'' \<and> length (format_command 10 90) = 5
   \<and> list_all is_digit (format_command 10 90)"
  using format_command_in_range [of 10 90]
  by (simp add: digit_char_def is_digit_def)

text \<open>
  C9 (as stated) fails: code 100 is outside [0,99], yet \<open>format_command\<close> returns a token,
  and the token has six characters.
\<close>

theorem format_command_out_of_range_counterexample:
  "format_command 100 0 = ''100000'' \<and> length (format_command 100 0) \<noteq> 5"
  by (simp add: format_command_def format_d_def digits_three digits_small digit_char_def replicate_2)

section \<open>The command transaction\<close>


lemma take_Cons_replicate: "take k (x # replicate n x) = replicate (min k (Suc n)) x"
  by (simp only: replicate_Suc [symmetric] take_replicate)

lemma reads_Suc: "reads s (Suc n) = fst (next_attempt s) # reads (snd (next_attempt s)) n"
  by (cases "rx s") (simp_all add: reads_def next_attempt_def take_Cons_replicate)

lemma rx_next_attempt: "rx (snd (next_attempt s)) = drop 1 (rx s)"
  by (cases "rx s") (simp_all add: next_attempt_def)


lemma next_attempt_eq: "snd (next_attempt s) = s\<lparr>rx := drop 1 (rx s)\<rparr>"
  by (cases "rx s") (simp_all add: next_attempt_def)

lemma send_loop_timeouts:
  "list_all timed_out (reads s n) \<Longrightarrow> attempt + n \<le> M \<Longrightarrow>
   send_loop cmd M attempt s sl =
     send_loop cmd M (attempt + n)
       (s\<lparr>rx := drop n (rx s), tx := tx s @ replicate n (cmd @ [CHR 0x0A])\<rparr>)
       (sl @ map (\<lambda>k. 2 ^ k) [attempt..<attempt + n])"
proof (induction n arbitrary: attempt s sl)
  case 0
  then show ?case by simp
next
  case (Suc n)
  obtain a s1 where na: "next_attempt s = (a, s1)" by (cases "next_attempt s")
  from Suc.prems(1) na have a: "timed_out a" and rest: "list_all timed_out (reads s1 n)"
    by (simp_all add: reads_Suc)
  from a obtain line where line: "a = Reply line" "py_strip line = []"
    by (cases a) simp_all
  have s1: "s1 = s\<lparr>rx := drop 1 (rx s)\<rparr>"
    using next_attempt_eq [of s] na by simp
  let ?s2 = "s1\<lparr>tx := tx s1 @ [cmd @ [CHR 0x0A]]\<rparr>"
  have step: "send_loop cmd M attempt s sl = send_loop cmd M (attempt + 1) ?s2 (sl @ [2 ^ attempt])"
    using Suc.prems(2) na line by (subst send_loop.simps) simp
  have "list_all timed_out (reads ?s2 n)" using rest by (simp add: reads_def)
  moreover have "attempt + 1 + n \<le> M" using Suc.prems(2) by simp
  ultimately have ih: "send_loop cmd M (attempt + 1) ?s2 (sl @ [2 ^ attempt]) =
     send_loop cmd M (attempt + 1 + n)
       (?s2\<lparr>rx := drop n (rx ?s2), tx := tx ?s2 @ replicate n (cmd @ [CHR 0x0A])\<rparr>)
       ((sl @ [2 ^ attempt]) @ map (\<lambda>k. 2 ^ k) [attempt + 1..<attempt + 1 + n])"
    by (rule Suc.IH)
  have upt: "[attempt..<attempt + Suc n] = attempt # [attempt + 1..<attempt + 1 + n]"
    by (simp add: upt_rec)
  show ?case
    unfolding step ih upt using s1
    by (simp add: replicate_append_same [symmetric] del: replicate_append_same)
qed


lemma reads_add: "reads s (n + m) = reads s n @ reads (s\<lparr>rx := drop n (rx s)\<rparr>) m"
proof (induction n arbitrary: s)
  case 0
  then show ?case by (simp add: reads_def)
next
  case (Suc n)
  have "reads s (Suc n + m) = fst (next_attempt s) # reads (snd (next_attempt s)) (n + m)"
    by (simp add: reads_Suc)
  also have "reads (snd (next_attempt s)) (n + m) =
      reads (snd (next_attempt s)) n @
      reads ((snd (next_attempt s))\<lparr>rx := drop n (rx (snd (next_attempt s)))\<rparr>) m"
    by (rule Suc.IH)
  finally show ?case
    by (simp add: reads_Suc next_attempt_eq)
qed

lemma length_reads: "length (reads s n) = n"
  by (simp add: reads_def)

lemma backoff_eq: "backoff n = map (\<lambda>k. 2 ^ k) [0..<n]"
proof -
  have "map (\<lambda>attempt. (2::nat) ^ (attempt - 1)) (map Suc [0..<n]) = map (\<lambda>k. 2 ^ k) [0..<n]"
    by simp
  then show ?thesis
    unfolding backoff_def by (simp only: map_Suc_upt One_nat_def)
qed

lemma send_loop_exhausted:
  assumes "list_all timed_out (reads s M)"
  shows "send_loop cmd M 0 s sl =
     (''ERR TIMEOUT'',
      s\<lparr>rx := drop M (rx s), tx := tx s @ replicate M (cmd @ [CHR 0x0A])\<rparr>,
      sl @ backoff M)"
proof -
  have "send_loop cmd M 0 s sl =
     send_loop cmd M (0 + M)
       (s\<lparr>rx := drop M (rx s), tx := tx s @ replicate M (cmd @ [CHR 0x0A])\<rparr>)
       (sl @ map (\<lambda>k. 2 ^ k) [0..<0 + M])"
    using assms by (intro send_loop_timeouts) simp_all
  then show ?thesis
    by (simp add: backoff_eq send_loop.simps [of cmd M M])
qed

lemma send_loop_reply:
  assumes "reads s (Suc n) = es @ [Reply line]" and "list_all timed_out es"
    and "py_strip line \<noteq> []" and "n < M"
  shows "send_loop cmd M 0 s sl =
     (py_strip line,
      s\<lparr>rx := drop (Suc n) (rx s), tx := tx s @ replicate (Suc n) (cmd @ [CHR 0x0A])\<rparr>,
      sl @ backoff n)"
proof -
  let ?s1 = "s\<lparr>rx := drop n (rx s)\<rparr>"
  let ?s2 = "s\<lparr>rx := drop n (rx s), tx := tx s @ replicate n (cmd @ [CHR 0x0A])\<rparr>"
  have split: "reads s (Suc n) = reads s n @ reads ?s1 1"
    using reads_add [of s n 1] by simp
  have len: "length es = n"
    using assms(1) length_reads [of s "Suc n"] by simp
  have es: "reads s n = es" and one: "reads ?s1 1 = [Reply line]"
    using assms(1) split len length_reads [of s n] by (auto simp: append_eq_append_conv)
  have na: "fst (next_attempt ?s1) = Reply line"
    using one reads_Suc [of ?s1 0] by (simp add: reads_def)
  have na2: "next_attempt ?s2 = (Reply line, ?s2\<lparr>rx := drop 1 (rx ?s2)\<rparr>)"
  proof -
    have "fst (next_attempt ?s2) = fst (next_attempt ?s1)"
      by (cases "drop n (rx s)") (simp_all add: next_attempt_def)
    then show ?thesis
      using na next_attempt_eq [of ?s2] by (simp add: prod_eq_iff)
  qed
  have "send_loop cmd M 0 s sl =
     send_loop cmd M (0 + n) ?s2 (sl @ map (\<lambda>k. 2 ^ k) [0..<0 + n])"
    using assms(2,4) es by (intro send_loop_timeouts) simp_all
  also have "\<dots> = (py_strip line,
      s\<lparr>rx := drop (Suc n) (rx s), tx := tx s @ replicate (Suc n) (cmd @ [CHR 0x0A])\<rparr>,
      sl @ backoff n)"
    using assms(3,4) na2
    by (subst send_loop.simps)
       (simp add: backoff_eq
          replicate_append_same [symmetric] del: replicate_append_same)
  finally show ?thesis .
qed


text \<open>
  C5. On an open line, a transaction with \<open>M\<close> attempts whose first \<open>n < M\<close> reads time
  out (read nothing, or only whitespace) and whose next read has content returns that
  content after exactly \<open>n + 1\<close> writes of the command line, having slept
  \<open>2 ^ (attempt - 1)\<close> base delays after each timed-out attempt. When all \<open>M\<close> reads
  time out, exactly \<open>M\<close> writes occur and the response is \<open>ERR TIMEOUT\<close>, which is
  not an acknowledgement.
\<close>

theorem send_raw_command_retry:
  "ser c = Some s \<and> is_open s \<Longrightarrow>
   (n < M \<and> length es = n \<and> list_all timed_out es \<and> py_strip line \<noteq> []
      \<and> reads s (Suc n) = es @ [Reply line] \<longrightarrow>
    send_raw_command c pp aaa M =
      (py_strip line,
       c\<lparr>ser := Some (s\<lparr>rx := drop (Suc n) (rx s),
                          tx := tx s @ replicate (n + 1) (wire_line pp aaa)\<rparr>),
         slept := slept c @ backoff n\<rparr>))
   \<and> (list_all timed_out (reads s M) \<longrightarrow>
    send_raw_command c pp aaa M =
      (''ERR TIMEOUT'',
       c\<lparr>ser := Some (s\<lparr>rx := drop M (rx s),
                          tx := tx s @ replicate M (wire_line pp aaa)\<rparr>),
         slept := slept c @ backoff M\<rparr>)
    \<and> \<not> startswith ''ERR TIMEOUT'' ''OK'')"
proof (intro conjI impI)
  assume open_line: "ser c = Some s \<and> is_open s"
  {
    assume "n < M \<and> length es = n \<and> list_all timed_out es \<and> py_strip line \<noteq> []
      \<and> reads s (Suc n) = es @ [Reply line]"
    then show "send_raw_command c pp aaa M =
      (py_strip line,
       c\<lparr>ser := Some (s\<lparr>rx := drop (Suc n) (rx s),
                          tx := tx s @ replicate (n + 1) (wire_line pp aaa)\<rparr>),
         slept := slept c @ backoff n\<rparr>)"
      using open_line send_loop_reply [of s n es line M "format_command pp aaa" "slept c"]
      by (simp add: send_raw_command_def wire_line_def)
  }
  {
    assume "list_all timed_out (reads s M)"
    then show "send_raw_command c pp aaa M =
      (''ERR TIMEOUT'',
       c\<lparr>ser := Some (s\<lparr>rx := drop M (rx s),
                          tx := tx s @ replicate M (wire_line pp aaa)\<rparr>),
         slept := slept c @ backoff M\<rparr>)"
      using open_line send_loop_exhausted [of s M "format_command pp aaa" "slept c"]
      by (simp add: send_raw_command_def wire_line_def)
  }
  show "\<not> startswith ''ERR TIMEOUT'' ''OK''" by simp
qed

theorem send_raw_command_retry_witness:
  "send_raw_command (c_test [Reply [], Reply [], Reply ''OK 11 045'']) 11 45 3 =
     (''OK 11 045'',
      (c_test [])\<lparr>ser := Some \<lparr>is_open = True, boot = [], rx = [],
                      tx = [''11045'' @ [CHR 0x0A], ''11045'' @ [CHR 0x0A], ''11045'' @ [CHR 0x0A]]\<rparr>,
        slept := [1, 2]\<rparr>)
   \<and> send_raw_command (c_test [Reply [], Reply [], Reply []]) 11 45 3 =
     (''ERR TIMEOUT'',
      (c_test [])\<lparr>ser := Some \<lparr>is_open = True, boot = [], rx = [],
                      tx = [''11045'' @ [CHR 0x0A], ''11045'' @ [CHR 0x0A], ''11045'' @ [CHR 0x0A]]\<rparr>,
        slept := [1, 2, 4]\<rparr>)"
proof -
  have fc: "wire_line 11 45 = ''11045'' @ [CHR 0x0A]"
    by (simp add: wire_line_def format_command_def format_d_def digits.simps digit_char_def)
  have e: "py_strip [] = []" and r: "py_strip ''OK 11 045'' = ''OK 11 045''"
    by (simp_all add: py_strip_def is_space_def whitespace_def)
  show ?thesis
    using send_raw_command_retry [of "c_test [Reply [], Reply [], Reply ''OK 11 045'']"
        "\<lparr>is_open = True, boot = [], rx = [Reply [], Reply [], Reply ''OK 11 045''], tx = []\<rparr>"
        2 3 "[Reply [], Reply []]" "''OK 11 045''" 11 45]
      send_raw_command_retry [of "c_test [Reply [], Reply [], Reply []]"
        "\<lparr>is_open = True, boot = [], rx = [Reply [], Reply [], Reply []], tx = []\<rparr>"
        0 3 "[]" "[]" 11 45]
    by (simp add: c_test_def reads_def fc e r backoff_def upt_rec numeral_3_eq_3)
qed

section \<open>The safety latch\<close>

lemma contains_nonempty: "contains r (p # ps) \<Longrightarrow> r \<noteq> []"
  by (cases r) simp_all

text \<open>
  C3 (as amended). Whatever the safety state was (it is not constrained), when the device
  answers the ESTOP transaction within the retry budget and the answer contains the text
  \<open>OK ESTOP\<close>, \<open>emergency_stop\<close> returns success and the state is \<open>LATCHED\<close>.
\<close>

theorem emergency_stop_latches:
  "ser c = Some s \<and> is_open s \<and> n < MAX_RETRIES \<and> length es = n \<and> list_all timed_out es
     \<and> reads s (Suc n) = es @ [Reply line] \<and> contains (py_strip line) ''OK ESTOP'' \<Longrightarrow>
   fst (emergency_stop c) = True \<and> last_state (snd (emergency_stop c)) = LATCHED"
proof -
  assume a: "ser c = Some s \<and> is_open s \<and> n < MAX_RETRIES \<and> length es = n
     \<and> list_all timed_out es \<and> reads s (Suc n) = es @ [Reply line]
     \<and> contains (py_strip line) ''OK ESTOP''"
  then have ne: "py_strip line \<noteq> []"
    using contains_nonempty by blast
  have "fst (send_raw_command c CMD_ESTOP 0 MAX_RETRIES) = py_strip line"
    using a ne
      send_loop_reply [of s n es line MAX_RETRIES "format_command CMD_ESTOP 0" "slept c"]
    by (simp add: send_raw_command_def)
  then show ?thesis
    using a by (cases "send_raw_command c CMD_ESTOP 0 MAX_RETRIES") (simp add: emergency_stop_def)
qed

theorem emergency_stop_latches_witness:
  "fst (emergency_stop (c_test [Reply [], Reply (''OK ESTOP'' @ [CHR 0x0A])])) = True
   \<and> last_state (c_test [Reply [], Reply (''OK ESTOP'' @ [CHR 0x0A])]) = ARMED
   \<and> last_state (snd (emergency_stop (c_test [Reply [], Reply (''OK ESTOP'' @ [CHR 0x0A])])))
       = LATCHED"
  using emergency_stop_latches [of "c_test [Reply [], Reply (''OK ESTOP'' @ [CHR 0x0A])]"
        "\<lparr>is_open = True, boot = [], rx = [Reply [], Reply (''OK ESTOP'' @ [CHR 0x0A])], tx = []\<rparr>"
        1 "[Reply []]" "''OK ESTOP'' @ [CHR 0x0A]"]
  by (simp add: c_test_def reads_def MAX_RETRIES_def py_strip_def is_space_def whitespace_def)

text \<open>
  C3 (as stated) fails: the device acknowledges the ESTOP command with a line that starts
  with \<open>OK\<close>, in the form of its answers to the move commands, and \<open>emergency_stop\<close>
  returns failure and leaves the state \<open>ARMED\<close>.
\<close>

theorem emergency_stop_plain_ack_counterexample:
  "startswith (py_strip ''OK 99 000'') ''OK''
   \<and> last_state (c_test [Reply ''OK 99 000'']) = ARMED
   \<and> fst (emergency_stop (c_test [Reply ''OK 99 000''])) = False
   \<and> last_state (snd (emergency_stop (c_test [Reply ''OK 99 000'']))) = ARMED
   \<and> wire (snd (emergency_stop (c_test [Reply ''OK 99 000'']))) = [''99000'' @ [CHR 0x0A]]"
  by code_simp

text \<open>
  C4. \<open>home\<close> called while the state is \<open>LATCHED\<close> returns failure and leaves the
  controller as it was: no transaction is started, nothing is written to the wire, the
  device script is not consumed and the safety state is unchanged.
\<close>

theorem home_latched_rejected:
  "last_state c = LATCHED \<Longrightarrow> home c = (False, c)"
  by (simp add: home_def)

theorem home_latched_rejected_witness:
  "last_state ((c_test [Reply ''OK''])\<lparr>last_state := LATCHED\<rparr>) = LATCHED
   \<and> home ((c_test [Reply ''OK''])\<lparr>last_state := LATCHED\<rparr>)
       = (False, (c_test [Reply ''OK''])\<lparr>last_state := LATCHED\<rparr>)
   \<and> wire (snd (home ((c_test [Reply ''OK''])\<lparr>last_state := LATCHED\<rparr>))) = []"
  using home_latched_rejected [of "(c_test [Reply ''OK''])\<lparr>last_state := LATCHED\<rparr>"]
  by (simp add: c_test_def wire_def)

lemma send_raw_command_closed:
  "line_closed c \<Longrightarrow> send_raw_command c pp aaa M = (''ERR NO_CONNECTION'', c)"
  by (simp add: send_raw_command_def line_closed_def split: option.splits)

lemma line_closed_disconnect: "line_closed (disconnect c)"
  by (simp add: line_closed_def disconnect_def close_port_def split: option.splits)

text \<open>
  C10. While the line is not open (there is no port, or the port is closed), every
  typed operation returns \<open>False\<close> as a value and leaves the controller as it was: the
  wire and the safety state are unchanged.
\<close>

theorem commands_on_closed_line:
  "line_closed c \<Longrightarrow>
   send_command c pp aaa = (False, c) \<and> rotate_polarizer c angle = (False, c)
   \<and> rotate_sample c angle = (False, c) \<and> home c = (False, c)
   \<and> reset c = (False, c) \<and> emergency_stop c = (False, c)"
  by (simp add: send_raw_command_closed send_command_def rotate_polarizer_def
      rotate_sample_def home_def reset_def emergency_stop_def)

theorem commands_on_closed_line_witness:
  "line_closed init_controller \<and> line_closed (disconnect (c_test []))
   \<and> rotate_sample init_controller 45 = (False, init_controller)
   \<and> emergency_stop (disconnect (c_test [])) = (False, disconnect (c_test []))
   \<and> wire (snd (rotate_polarizer (disconnect (c_test [])) 90)) = []
   \<and> last_state (snd (reset (disconnect (c_test [])))) = ARMED
   \<and> snd (home (disconnect (c_test []))) = disconnect (c_test [])"
  using commands_on_closed_line [of init_controller 11 45 45]
    commands_on_closed_line [of "disconnect (c_test [])" 10 90 90]
  by (simp add: line_closed_def init_controller_def disconnect_def close_port_def c_test_def
      wire_def)

section \<open>The connection handshake\<close>

lemma wait_ready_quiet: "list_all quiet polls \<Longrightarrow> wait_ready polls = (Inr False, [])"
  by (induction polls rule: wait_ready.induct) simp_all

lemma wait_ready_seen:
  "list_all quiet pre \<Longrightarrow> py_strip line = ''READY'' \<Longrightarrow>
   wait_ready (pre @ Incoming line # ps) = (Inr True, ps)"
  by (induction pre rule: wait_ready.induct) simp_all

lemma reads_port [simp]: "reads (s\<lparr>is_open := b, boot := ps\<rparr>) n = reads s n"
  by (simp add: reads_def)

lemma connect_fallback:
  "list_all quiet (boot s0) \<Longrightarrow>
   connect c prt (Inr s0) =
     (case send_raw_command (c\<lparr>port := Some prt, ser := Some (s0\<lparr>is_open := True, boot := []\<rparr>)\<rparr>)
             CMD_RESET 0 MAX_RETRIES of
        (resp, c3) \<Rightarrow>
          if contains resp ''OK RESET'' then
            (Inr True, c3\<lparr>is_connected := True, last_state := ARMED\<rparr>)
          else connect_failed c3
                 (ConnectionError (''Failed to connect. Response to RESET: '' @ resp)))"
  by (simp add: connect_def wait_ready_quiet)

text \<open>
  C6 (as amended). With the port opened and \<open>c'\<close> the controller after \<open>connect\<close>:
  \<^item> when a line that strips to \<open>READY\<close> arrives within the wait window, \<open>connect\<close>
    succeeds, the state is \<open>LATCHED\<close> and nothing is written;
  \<^item> when the window passes without it, \<open>connect\<close> runs one RESET transaction. If the
    device answers after \<open>n\<close> timed-out attempts, the wire carries the RESET line
    \<open>n + 1\<close> times and nothing else; an answer containing \<open>OK RESET\<close> gives success and
    \<open>ARMED\<close>, any other answer a \<open>ConnectionError\<close>, with the controller not connected
    and the port closed;
  \<^item> when every attempt times out, the RESET line was written \<open>MAX_RETRIES\<close> times and
    \<open>connect\<close> fails with a \<open>ConnectionError\<close>.
\<close>

theorem connect_handshake:
  "(list_all quiet pre \<and> py_strip line = ''READY'' \<and> boot s0 = pre @ Incoming line # ps \<longrightarrow>
      fst (connect c prt (Inr s0)) = Inr True
      \<and> last_state (snd (connect c prt (Inr s0))) = LATCHED
      \<and> is_connected (snd (connect c prt (Inr s0)))
      \<and> wire (snd (connect c prt (Inr s0))) = tx s0)
   \<and> (list_all quiet (boot s0) \<and> n < MAX_RETRIES \<and> length es = n \<and> list_all timed_out es
        \<and> py_strip reply \<noteq> [] \<and> reads s0 (Suc n) = es @ [Reply reply] \<longrightarrow>
      wire (snd (connect c prt (Inr s0))) = tx s0 @ replicate (n + 1) (wire_line CMD_RESET 0)
      \<and> (if contains (py_strip reply) ''OK RESET''
         then fst (connect c prt (Inr s0)) = Inr True
              \<and> last_state (snd (connect c prt (Inr s0))) = ARMED
              \<and> is_connected (snd (connect c prt (Inr s0)))
         else fst (connect c prt (Inr s0)) =
                Inl (ConnectionError
                       (''Failed to connect. Response to RESET: '' @ py_strip reply))
              \<and> \<not> is_connected (snd (connect c prt (Inr s0)))
              \<and> line_closed (snd (connect c prt (Inr s0)))))
   \<and> (list_all quiet (boot s0) \<and> list_all timed_out (reads s0 MAX_RETRIES) \<longrightarrow>
      wire (snd (connect c prt (Inr s0))) =
        tx s0 @ replicate MAX_RETRIES (wire_line CMD_RESET 0)
      \<and> fst (connect c prt (Inr s0)) =
          Inl (ConnectionError ''Failed to connect. Response to RESET: ERR TIMEOUT'')
      \<and> \<not> is_connected (snd (connect c prt (Inr s0))))"
proof (intro conjI impI)
  let ?c2 = "c\<lparr>port := Some prt, ser := Some (s0\<lparr>is_open := True, boot := []\<rparr>)\<rparr>"
  let ?s = "s0\<lparr>is_open := True, boot := []\<rparr>"
  {
    assume "list_all quiet pre \<and> py_strip line = ''READY'' \<and> boot s0 = pre @ Incoming line # ps"
    then have "connect c prt (Inr s0) =
        (Inr True, c\<lparr>port := Some prt, ser := Some (s0\<lparr>is_open := True, boot := ps\<rparr>),
                     is_connected := True, last_state := LATCHED\<rparr>)"
      by (simp add: connect_def wait_ready_seen)
    then show "fst (connect c prt (Inr s0)) = Inr True"
      "last_state (snd (connect c prt (Inr s0))) = LATCHED"
      "is_connected (snd (connect c prt (Inr s0)))"
      "wire (snd (connect c prt (Inr s0))) = tx s0"
      by (simp_all add: wire_def)
  }
  {
    assume a: "list_all quiet (boot s0) \<and> n < MAX_RETRIES \<and> length es = n
        \<and> list_all timed_out es \<and> py_strip reply \<noteq> [] \<and> reads s0 (Suc n) = es @ [Reply reply]"
    have "send_raw_command ?c2 CMD_RESET 0 MAX_RETRIES =
        (py_strip reply,
         ?c2\<lparr>ser := Some (?s\<lparr>rx := drop (Suc n) (rx ?s),
                              tx := tx ?s @ replicate (n + 1) (wire_line CMD_RESET 0)\<rparr>),
            slept := slept ?c2 @ backoff n\<rparr>)"
      using a send_loop_reply [of ?s n es reply MAX_RETRIES "format_command CMD_RESET 0" "slept ?c2"]
      by (simp add: send_raw_command_def wire_line_def)
    then have c: "connect c prt (Inr s0) =
       (if contains (py_strip reply) ''OK RESET'' then
            (Inr True,
             ?c2\<lparr>ser := Some (?s\<lparr>rx := drop (Suc n) (rx ?s),
                              tx := tx ?s @ replicate (n + 1) (wire_line CMD_RESET 0)\<rparr>),
                slept := slept ?c2 @ backoff n, is_connected := True, last_state := ARMED\<rparr>)
          else connect_failed
                 (?c2\<lparr>ser := Some (?s\<lparr>rx := drop (Suc n) (rx ?s),
                              tx := tx ?s @ replicate (n + 1) (wire_line CMD_RESET 0)\<rparr>),
                    slept := slept ?c2 @ backoff n\<rparr>)
                 (ConnectionError (''Failed to connect. Response to RESET: '' @ py_strip reply)))"
      using a by (simp add: connect_fallback)
    show "wire (snd (connect c prt (Inr s0))) = tx s0 @ replicate (n + 1) (wire_line CMD_RESET 0)"
      unfolding c by (simp add: wire_def connect_failed_def close_port_def)
    show "if contains (py_strip reply) ''OK RESET''
         then fst (connect c prt (Inr s0)) = Inr True
              \<and> last_state (snd (connect c prt (Inr s0))) = ARMED
              \<and> is_connected (snd (connect c prt (Inr s0)))
         else fst (connect c prt (Inr s0)) =
                Inl (ConnectionError
                       (''Failed to connect. Response to RESET: '' @ py_strip reply))
              \<and> \<not> is_connected (snd (connect c prt (Inr s0)))
              \<and> line_closed (snd (connect c prt (Inr s0)))"
      unfolding c by (simp add: connect_failed_def close_port_def line_closed_def)
  }
  {
    assume a: "list_all quiet (boot s0) \<and> list_all timed_out (reads s0 MAX_RETRIES)"
    have "send_raw_command ?c2 CMD_RESET 0 MAX_RETRIES =
        (''ERR TIMEOUT'',
         ?c2\<lparr>ser := Some (?s\<lparr>rx := drop MAX_RETRIES (rx ?s),
                              tx := tx ?s @ replicate MAX_RETRIES (wire_line CMD_RESET 0)\<rparr>),
            slept := slept ?c2 @ backoff MAX_RETRIES\<rparr>)"
      using a send_loop_exhausted [of ?s MAX_RETRIES "format_command CMD_RESET 0" "slept ?c2"]
      by (simp add: send_raw_command_def wire_line_def)
    then have c: "connect c prt (Inr s0) =
        connect_failed
          (?c2\<lparr>ser := Some (?s\<lparr>rx := drop MAX_RETRIES (rx ?s),
                              tx := tx ?s @ replicate MAX_RETRIES (wire_line CMD_RESET 0)\<rparr>),
             slept := slept ?c2 @ backoff MAX_RETRIES\<rparr>)
          (ConnectionError (''Failed to connect. Response to RESET: '' @ ''ERR TIMEOUT''))"
      using a by (simp add: connect_fallback)
    show "wire (snd (connect c prt (Inr s0))) =
        tx s0 @ replicate MAX_RETRIES (wire_line CMD_RESET 0)"
      unfolding c by (simp add: wire_def connect_failed_def close_port_def)
    show "fst (connect c prt (Inr s0)) =
          Inl (ConnectionError ''Failed to connect. Response to RESET: ERR TIMEOUT'')"
      unfolding c by (simp add: connect_failed_def)
    show "\<not> is_connected (snd (connect c prt (Inr s0)))"
      unfolding c by (simp add: connect_failed_def)
  }
qed


lemma wire_line_reset: "wire_line CMD_RESET 0 = ''98000'' @ [CHR 0x0A]"
  by (simp add: wire_line_def CMD_RESET_def format_command_def format_d_def digits_two
      digits_small digit_char_def replicate_2)

theorem connect_handshake_witness:
  "fst (connect init_controller ''COM3'' (Inr dev_booting)) = Inr True
   \<and> last_state (snd (connect init_controller ''COM3'' (Inr dev_booting))) = LATCHED
   \<and> wire (snd (connect init_controller ''COM3'' (Inr dev_booting))) = []
   \<and> fst (connect init_controller ''COM3'' (Inr dev_running)) = Inr True
   \<and> last_state (snd (connect init_controller ''COM3'' (Inr dev_running))) = ARMED
   \<and> fst (connect init_controller ''COM3'' (Inr dev_refusing)) =
       Inl (ConnectionError ''Failed to connect. Response to RESET: ERR BUSY'')
   \<and> wire (snd (connect init_controller ''COM3'' (Inr dev_refusing))) = [''98000'' @ [CHR 0x0A]]
   \<and> fst (connect init_controller ''COM3'' (Inr dev_dead)) =
       Inl (ConnectionError ''Failed to connect. Response to RESET: ERR TIMEOUT'')
   \<and> length (wire (snd (connect init_controller ''COM3'' (Inr dev_dead)))) = MAX_RETRIES"
  using
    connect_handshake [where pre = "[Silent]" and line = "''READY'' @ [CHR 0x0A]"
      and ?s0.0 = dev_booting and ps = "[]" and n = 0 and es = "[]" and reply = "''x''"
      and c = init_controller and prt = "''COM3''"]
    connect_handshake [where pre = "[]" and line = "[]" and ?s0.0 = dev_running and ps = "[]"
      and n = 2 and es = "[Reply [], Reply []]" and reply = "''OK RESET'' @ [CHR 0x0A]"
      and c = init_controller and prt = "''COM3''"]
    connect_handshake [where pre = "[]" and line = "[]" and ?s0.0 = dev_refusing and ps = "[]"
      and n = 0 and es = "[]" and reply = "''ERR BUSY''"
      and c = init_controller and prt = "''COM3''"]
    connect_handshake [where pre = "[]" and line = "[]" and ?s0.0 = dev_dead and ps = "[]"
      and n = 0 and es = "[]" and reply = "[]"
      and c = init_controller and prt = "''COM3''"]
  by (simp add: dev_booting_def dev_running_def dev_refusing_def dev_dead_def reads_def
      MAX_RETRIES_def py_strip_def is_space_def whitespace_def wire_line_reset replicate_3)

text \<open>
  C6 (as stated) fails: after a silent wait window, a device that answers only the third
  attempt has received the RESET line three times, not once.
\<close>

theorem connect_reset_writes_counterexample:
  "fst (connect init_controller ''COM3'' (Inr dev_running)) = Inr True
   \<and> wire (snd (connect init_controller ''COM3'' (Inr dev_running))) =
       [''98000'' @ [CHR 0x0A], ''98000'' @ [CHR 0x0A], ''98000'' @ [CHR 0x0A]]"
  by (simp add: connect_def dev_running_def init_controller_def send_raw_command_def
      send_loop.simps next_attempt_def MAX_RETRIES_def wire_def connect_failed_def
      py_strip_def is_space_def whitespace_def wire_line_reset [unfolded wire_line_def])

section \<open>The capture sequence: failure, abort, retry\<close>





section \<open>The capture sequence: order of a complete run\<close>







































section \<open>The capture sequence on concrete devices\<close>




text \<open>
  C2 is not met by the code. The abort arrives during the settling wait after the first
  sample move. The run ends in the abort handler, without an emergency stop and with
  \<open>resume_live\<close> called once, but the call returns normally, with the same outcome as
  the run that completes: nothing reaches the caller.
\<close>

theorem abort_is_swallowed:
  "fst (run_sequence ''out'' ''s1'' 1000 200 (Some [90, 0]) True True
          (w_test dev_obedient (Some 3) [])) = Inr ()
   \<and> fst (run_sequence ''out'' ''s1'' 1000 200 (Some [90, 0]) True True
          (w_test dev_obedient None [])) = Inr ()
   \<and> fst (snd (run_sequence ''out'' ''s1'' 1000 200 (Some [90, 0]) True True
          (w_test dev_obedient (Some 3) [])))
      = [Log ''Starting Sequence...'', EnsureDir [''out'', ''s1'', ''crosspol''],
         EnsureDir [''out'', ''s1'', ''normal''], StopLive,
         Log ''Arming system (RESET)...'', Call_reset, Log ''Phase 1: Crosspol'',
         SetExposure 1000, Log ''Moving Polarizer to 90...'', Call_rotate_polarizer 90,
         Log ''Crosspol: Sample 90 deg'', Call_rotate_sample 90, Log ''Abort requested!'',
         Log ''Sequence Aborted!'', ResumeLive]"
  by code_simp

text \<open>
  C8 is not met by the code in the Normal phase. The device refuses the first sample
  move and would acknowledge the next one. With only Phase 1 enabled the move is sent a
  second time and the run completes; with only Phase 2 enabled the move is sent once and
  the run fails.
\<close>

theorem normal_phase_does_not_retry:
  "fst (run_sequence ''out'' ''s1'' 1000 200 (Some [45]) True False
          (w_test dev_one_refusal None [])) = Inr ()
   \<and> filter is_sample_move (fst (snd (run_sequence ''out'' ''s1'' 1000 200 (Some [45]) True False
          (w_test dev_one_refusal None []))))
      = [Call_rotate_sample 45, Call_rotate_sample 45]
   \<and> fst (run_sequence ''out'' ''s1'' 1000 200 (Some [45]) False True
          (w_test dev_one_refusal None [])) = Inl (RuntimeError ''Failed moving sample to 45'')
   \<and> filter is_sample_move (fst (snd (run_sequence ''out'' ''s1'' 1000 200 (Some [45]) False True
          (w_test dev_one_refusal None []))))
      = [Call_rotate_sample 45]"
  by code_simp


end
